theory Spec2Isabelle
  imports Complex_Main
begin

section \<open>The Esri grid model (package model, esrigrid.go)\<close>

text \<open>
  The Go type \<open>ConcreteEsriGrid\<close> is a struct of scalars and one matrix of heights. It is
  embedded as a record. A Go \<open>int\<close> is an \<open>int\<close> here: the values scanned from a file
  are kept within 64 bits by the scanner, and the counters of the reader are bounded by
  the number of lines read. A \<open>float32\<close> is modelled by the real number it denotes: the order and
  the equality of the finite floats are those of the reals; rounding of a decimal token to
  the nearest float, NaN and the infinities are outside the model. The matrix
  \<open>[][]float32\<close> is a list of rows; the nil slice and the empty slice behave alike under
  indexing and are both the empty list. The rows of a matrix are allocated one by one by
  the only code that assigns the field, so no two rows share storage and a list of lists
  is faithful.

  A run-time panic (an index out of range, a negative length given to \<open>make\<close>) and the
  errors that the package returns are values of the type \<open>fault\<close>; a call that may fail
  returns \<open>fault + 'a\<close>. Logging has no effect on the results and is left out, and with it
  the \<open>verbose\<close> parameters.
\<close>

datatype fault =
    Panic         \<comment> \<open>a run-time panic: the call does not return to its caller\<close>
  | OpenError     \<comment> \<open>\<open>os.Open\<close> failed\<close>
  | EOF           \<comment> \<open>\<open>ReadString\<close> reached the end of the input before a newline\<close>
  | ScanError     \<comment> \<open>\<open>fmt.Sscanf\<close> returned an error\<close>
  | Unmodelled    \<comment> \<open>a token whose scanning is outside the modelled part of \<open>fmt\<close>\<close>

record ConcreteEsriGrid =
  ncols :: int
  nrows :: int
  xllcorner :: real
  yllcorner :: real
  cellsize :: real
  noDataValue :: real
  maxHeight :: real
  minHeight :: real
  height :: "real list list"
  minHeightSet :: bool
  maxHeightSet :: bool
  verbose :: bool

text \<open>\<open>MakeEsriGrid\<close> returns \<open>&ConcreteEsriGrid{}\<close>: every field has its zero value.\<close>

definition MakeEsriGrid :: ConcreteEsriGrid where
  "MakeEsriGrid =
     \<lparr>ncols = 0, nrows = 0, xllcorner = 0, yllcorner = 0, cellsize = 0, noDataValue = 0,
      maxHeight = 0, minHeight = 0, height = [], minHeightSet = False,
      maxHeightSet = False, verbose = False\<rparr>"

definition Ncols :: "ConcreteEsriGrid \<Rightarrow> int" where
  "Ncols ceg = ncols ceg"

definition Nrows :: "ConcreteEsriGrid \<Rightarrow> int" where
  "Nrows ceg = nrows ceg"

definition Xllcorner :: "ConcreteEsriGrid \<Rightarrow> real" where
  "Xllcorner ceg = xllcorner ceg"

definition Yllcorner :: "ConcreteEsriGrid \<Rightarrow> real" where
  "Yllcorner ceg = yllcorner ceg"

definition CellSize :: "ConcreteEsriGrid \<Rightarrow> real" where
  "CellSize ceg = cellsize ceg"

definition NoDataValue :: "ConcreteEsriGrid \<Rightarrow> real" where
  "NoDataValue ceg = noDataValue ceg"

definition MaxHeight :: "ConcreteEsriGrid \<Rightarrow> real" where
  "MaxHeight ceg = maxHeight ceg"

definition MinHeight :: "ConcreteEsriGrid \<Rightarrow> real" where
  "MinHeight ceg = minHeight ceg"

text \<open>
  \<open>ceg.height[row][col]\<close>: Go checks both indices against the lengths of the slices
  (not against the fields \<open>nrows\<close> and \<open>ncols\<close>) and panics outside them.
\<close>

definition index2 :: "real list list \<Rightarrow> int \<Rightarrow> int \<Rightarrow> bool" where
  "index2 m row col =
     (0 \<le> row \<and> nat row < length m \<and> 0 \<le> col \<and> nat col < length (m ! nat row))"

definition Height :: "ConcreteEsriGrid \<Rightarrow> int \<Rightarrow> int \<Rightarrow> fault + real" where
  "Height ceg row col =
     (if index2 (height ceg) row col then Inr (height ceg ! nat row ! nat col)
      else Inl Panic)"

definition SetNCols :: "int \<Rightarrow> ConcreteEsriGrid \<Rightarrow> ConcreteEsriGrid" where
  "SetNCols n ceg = ceg\<lparr>ncols := n\<rparr>"

definition SetNRows :: "int \<Rightarrow> ConcreteEsriGrid \<Rightarrow> ConcreteEsriGrid" where
  "SetNRows n ceg = ceg\<lparr>nrows := n\<rparr>"

definition SetXllcorner :: "real \<Rightarrow> ConcreteEsriGrid \<Rightarrow> ConcreteEsriGrid" where
  "SetXllcorner x ceg = ceg\<lparr>xllcorner := x\<rparr>"

definition SetYllcorner :: "real \<Rightarrow> ConcreteEsriGrid \<Rightarrow> ConcreteEsriGrid" where
  "SetYllcorner y ceg = ceg\<lparr>yllcorner := y\<rparr>"

definition SetCellSize :: "real \<Rightarrow> ConcreteEsriGrid \<Rightarrow> ConcreteEsriGrid" where
  "SetCellSize c ceg = ceg\<lparr>cellsize := c\<rparr>"

definition SetNoDataValue :: "real \<Rightarrow> ConcreteEsriGrid \<Rightarrow> ConcreteEsriGrid" where
  "SetNoDataValue v ceg = ceg\<lparr>noDataValue := v\<rparr>"

text \<open>
  \<open>SetHeight\<close>, lines 154 to 184. The guard rejects an index at or above the dimension
  fields; the store \<open>ceg.height[row][col] = height\<close> then panics when an index is negative
  or outside the slices. The two updates of the extrema are those of the source, the
  maximum first.

  Between the store and the updates the source has, at line 162,
  \<^verbatim>\<open>if height = noDataValue { return }\<close>
  which spells an assignment where Go wants a boolean expression, with a bare name
  \<open>noDataValue\<close> that can only be the field \<open>ceg.noDataValue\<close>. Go gives no meaning to
  that line, so the embedding does not choose one: the outcome of the test, as a
  function of \<open>height\<close> and of the field, is a parameter of \<open>SetHeight\<close> and of every
  function that calls it. Two instances are named. \<open>asWritten\<close> takes the line as the
  assignment it spells, followed by the \<open>return\<close>: the branch is taken whatever the
  value, and the code below it never runs. \<open>asMeant\<close> is the comparison
  \<open>height == ceg.noDataValue\<close> that the comments and the documentation of the package
  describe.
\<close>

type_synonym noDataTest = "real \<Rightarrow> real \<Rightarrow> bool"

definition asWritten :: noDataTest where
  "asWritten h n = True"

definition asMeant :: noDataTest where
  "asMeant h n = (h = n)"

definition updateMax :: "real \<Rightarrow> ConcreteEsriGrid \<Rightarrow> ConcreteEsriGrid" where
  "updateMax h ceg =
     (if maxHeightSet ceg
      then (if h > maxHeight ceg then ceg\<lparr>maxHeight := h\<rparr> else ceg)
      else ceg\<lparr>maxHeight := h, maxHeightSet := True\<rparr>)"

definition updateMin :: "real \<Rightarrow> ConcreteEsriGrid \<Rightarrow> ConcreteEsriGrid" where
  "updateMin h ceg =
     (if minHeightSet ceg
      then (if h < minHeight ceg then ceg\<lparr>minHeight := h\<rparr> else ceg)
      else ceg\<lparr>minHeight := h, minHeightSet := True\<rparr>)"

definition store :: "int \<Rightarrow> int \<Rightarrow> real \<Rightarrow> ConcreteEsriGrid \<Rightarrow> ConcreteEsriGrid" where
  "store row col h ceg =
     ceg\<lparr>height := (height ceg)[nat row := (height ceg ! nat row)[nat col := h]]\<rparr>"

definition SetHeight ::
  "noDataTest \<Rightarrow> int \<Rightarrow> int \<Rightarrow> real \<Rightarrow> ConcreteEsriGrid \<Rightarrow> fault + ConcreteEsriGrid" where
  "SetHeight test row col h ceg =
     (if row \<ge> nrows ceg \<or> col \<ge> ncols ceg then Inr ceg
      else if \<not> index2 (height ceg) row col then Inl Panic
      else if test h (noDataValue ceg) then Inr (store row col h ceg)
      else Inr (updateMin h (updateMax h (store row col h ceg))))"

section \<open>Reading a file\<close>

text \<open>
  The contents of a file are a string of bytes, and a \<open>bufio.Reader\<close> over it is the
  string that remains to be read. \<open>r.ReadString('\n')\<close> returns the bytes up to and
  including the first newline; when the input ends before a newline it returns an error
  (\<open>io.EOF\<close>), and every caller in the package gives up on that error, so the bytes that
  come with it are not kept.
\<close>

definition newline :: char where
  "newline = CHR 0x0A"

definition ReadString :: "string \<Rightarrow> fault + (string \<times> string)" where
  "ReadString r =
     (if newline \<in> set r
      then Inr (takeWhile (\<lambda>c. c \<noteq> newline) r @ [newline],
                tl (dropWhile (\<lambda>c. c \<noteq> newline) r))
      else Inl EOF)"

text \<open>
  \<open>strings.TrimSpace\<close> removes leading and trailing white space. The model covers the
  white space of ASCII (tab, newline, vertical tab, form feed, carriage return, space);
  the white space that Unicode adds beyond ASCII is outside the model, so the strings
  considered are ASCII text.
\<close>

definition isSpace :: "char \<Rightarrow> bool" where
  "isSpace c =
     (c = CHR 0x09 \<or> c = CHR 0x0A \<or> c = CHR 0x0B \<or> c = CHR 0x0C \<or> c = CHR 0x0D \<or> c = CHR '' '')"

definition strings_TrimSpace :: "string \<Rightarrow> string" where
  "strings_TrimSpace s = rev (dropWhile isSpace (rev (dropWhile isSpace s)))"

text \<open>
  \<open>re.ReplaceAllLiteralString(s, " ")\<close> for the expression \<open>"  +"\<close> (two spaces and a
  plus sign: a run of two or more spaces): every maximal run of at least two space
  characters becomes one space. A single space stays, and so does every other white
  space character.
\<close>

fun replaceSpaceRuns :: "string \<Rightarrow> string" where
  "replaceSpaceRuns (a # b # cs) =
     (if a = CHR '' '' \<and> b = CHR '' '' then replaceSpaceRuns (b # cs)
      else a # replaceSpaceRuns (b # cs))"
| "replaceSpaceRuns cs = cs"

text \<open>
  \<open>stripSpaces\<close>, lines 414 to 422. The expression always compiles, so the error result
  is always nil and the model returns the string alone.
\<close>

definition stripSpaces :: "string \<Rightarrow> string" where
  "stripSpaces s = replaceSpaceRuns (strings_TrimSpace s)"

text \<open>\<open>strings.Split(s, " ")\<close>: the pieces between the single spaces, at least one piece.\<close>

fun strings_Split :: "string \<Rightarrow> string list" where
  "strings_Split [] = [[]]"
| "strings_Split (c # cs) =
     (if c = CHR '' '' then [] # strings_Split cs
      else (case strings_Split cs of [] \<Rightarrow> [[c]] | t # ts \<Rightarrow> (c # t) # ts))"

subsection \<open>Scanning a number: \<open>fmt.Sscanf\<close> with one verb\<close>

text \<open>
  \<open>fmt.Sscanf(str, "%d", &result)\<close> skips leading white space, fails at the end of the
  input, accepts one sign, then the longest run of decimal digits and underscores, which
  must not be empty; \<open>strconv.ParseInt\<close> in base 10 then rejects an underscore and a value
  outside 64 bits. What follows the run in the string is not looked at.
\<close>

definition isDigit :: "char \<Rightarrow> bool" where
  "isDigit c = (48 \<le> (of_char c :: nat) \<and> (of_char c :: nat) \<le> 57)"

definition digitOrUnderscore :: "char \<Rightarrow> bool" where
  "digitOrUnderscore c = (isDigit c \<or> c = CHR ''_'')"

definition digitsVal :: "string \<Rightarrow> nat" where
  "digitsVal ds = foldl (\<lambda>n c. 10 * n + (of_char c - 48)) 0 ds"

definition acceptSign :: "string \<Rightarrow> bool \<times> string" where
  "acceptSign s =
     (case s of
        [] \<Rightarrow> (False, [])
      | c # cs \<Rightarrow> if c = CHR ''-'' then (True, cs)
                  else if c = CHR ''+'' then (False, cs) else (False, s))"

definition Sscanf_d :: "string \<Rightarrow> fault + int" where
  "Sscanf_d str =
     (let s = dropWhile isSpace str in
      if s = [] then Inl ScanError
      else
        let (neg, s1) = acceptSign s;
            tok = takeWhile digitOrUnderscore s1
        in if tok = [] then Inl ScanError
           else if CHR ''_'' \<in> set tok then Inl ScanError
           else
             let v = (if neg then - int (digitsVal tok) else int (digitsVal tok))
             in if v < - (2 ^ 63) \<or> 2 ^ 63 \<le> v then Inl ScanError else Inr v)"

text \<open>
  \<open>fmt.Sscanf(str, "%f", &result)\<close> into a \<open>float32\<close>. The model covers the plain decimal
  tokens: after the white space an optional sign, digits, and an optional point with
  digits. A token with no digit at all is an error, and so is a value that rounds beyond
  the largest \<open>float32\<close> (\<open>strconv.ParseFloat\<close> reports a range error from
  \<open>2^128 - 2^103\<close> on). The other forms that \<open>fmt\<close> accepts or may accept (NaN, the
  infinities, a hexadecimal mantissa, an exponent, underscores between digits) have the
  result \<open>Unmodelled\<close>: the model says nothing about them.
\<close>

definition maxFloat32Bound :: real where
  "maxFloat32Bound = 2 ^ 128 - 2 ^ 103"

definition startsWith :: "string \<Rightarrow> char set \<Rightarrow> bool" where
  "startsWith s cs = (case s of [] \<Rightarrow> False | c # _ \<Rightarrow> c \<in> cs)"

definition Sscanf_f :: "string \<Rightarrow> fault + real" where
  "Sscanf_f str =
     (let s = dropWhile isSpace str in
      if s = [] then Inl ScanError
      else if startsWith s {CHR ''n'', CHR ''N''} then Inl Unmodelled
      else
        let (neg, s1) = acceptSign s in
        if startsWith s1 {CHR ''i'', CHR ''I''} then Inl Unmodelled
        else if startsWith s1 {CHR ''0''} \<and> startsWith (tl s1) {CHR ''x'', CHR ''X''}
        then Inl Unmodelled
        else
          let ip = takeWhile digitOrUnderscore s1;
              s2 = dropWhile digitOrUnderscore s1;
              fp = (if startsWith s2 {CHR ''.''} then takeWhile digitOrUnderscore (tl s2) else []);
              s3 = (if startsWith s2 {CHR ''.''} then dropWhile digitOrUnderscore (tl s2) else s2)
          in if CHR ''_'' \<in> set (ip @ fp) then Inl Unmodelled
             else if startsWith s3 {CHR ''e'', CHR ''E'', CHR ''p'', CHR ''P''} then Inl Unmodelled
             else if ip = [] \<and> fp = [] then Inl ScanError
             else
               let v = real (digitsVal (ip @ fp)) / 10 ^ length fp
               in if v \<ge> maxFloat32Bound then Inl ScanError
                  else Inr (if neg then - v else v))"

subsection \<open>The header lines\<close>

text \<open>
  \<open>readIntFromHeader\<close>, lines 360 to 384, and \<open>readFloat32FromHeader\<close>, lines 386 to 410.
  Both return the value and leave the reader after the line. The name of the field is
  only compared for a warning in the log. \<open>field[1]\<close> is read without a check of the
  number of fields: with fewer than two fields the index is out of range and Go panics.
\<close>

definition readIntFromHeader :: "string \<Rightarrow> string \<Rightarrow> fault + (int \<times> string)" where
  "readIntFromHeader r fieldName =
     (case ReadString r of
        Inl e \<Rightarrow> Inl e
      | Inr (line, r') \<Rightarrow>
          let field = strings_Split (stripSpaces line)
          in if length field < 2 then Inl Panic
             else (case Sscanf_d (field ! 1) of
                     Inl e \<Rightarrow> Inl e
                   | Inr result \<Rightarrow> Inr (result, r')))"

definition readFloat32FromHeader :: "string \<Rightarrow> string \<Rightarrow> fault + (real \<times> string)" where
  "readFloat32FromHeader r fieldName =
     (case ReadString r of
        Inl e \<Rightarrow> Inl e
      | Inr (line, r') \<Rightarrow>
          let field = strings_Split (stripSpaces line)
          in if length field < 2 then Inl Panic
             else (case Sscanf_f (field ! 1) of
                     Inl e \<Rightarrow> Inl e
                   | Inr result \<Rightarrow> Inr (result, r')))"

subsection \<open>The data lines\<close>

text \<open>
  Lines 249 to 253: \<open>make([][]float32, ceg.nrows)\<close> panics on a negative length, and so
  does \<open>make([]float32, ceg.ncols)\<close>, which runs once for every row. Memory is not
  bounded in the model: an allocation of a non-negative size succeeds. A fresh slice
  holds zeros.
\<close>

definition makeHeight :: "int \<Rightarrow> int \<Rightarrow> fault + real list list" where
  "makeHeight nr nc =
     (if nr < 0 then Inl Panic
      else if 0 < nr \<and> nc < 0 then Inl Panic
      else Inr (replicate (nat nr) (replicate (nat nc) 0)))"

text \<open>
  Lines 333 to 347, the loop over the tokens of one data line: a token that does not
  scan ends the whole call with the error; a scanned value is written with \<open>SetHeight\<close>.
\<close>

fun setRow :: "noDataTest \<Rightarrow> string list \<Rightarrow> int \<Rightarrow> int \<Rightarrow> ConcreteEsriGrid \<Rightarrow> fault + ConcreteEsriGrid" where
  "setRow test [] row col ceg = Inr ceg"
| "setRow test (t # ts) row col ceg =
     (case Sscanf_f t of
        Inl e \<Rightarrow> Inl e
      | Inr f \<Rightarrow>
          (case SetHeight test row col f ceg of
             Inl e \<Rightarrow> Inl e
           | Inr ceg' \<Rightarrow> setRow test ts row (col + 1) ceg'))"

text \<open>
  Lines 303 to 348, the loop over the data lines. It ends without an error when no
  further line can be read and when the count of lines passes \<open>linesExpected\<close>. A line
  with more or with fewer fields than \<open>ncols\<close> is passed over (\<open>continue\<close>), and \<open>row\<close> is
  incremented all the same. Each turn consumes one line of the input, which is what makes
  the loop end.
\<close>

function dataLoop ::
  "noDataTest \<Rightarrow> string \<Rightarrow> int \<Rightarrow> int \<Rightarrow> int \<Rightarrow> ConcreteEsriGrid \<Rightarrow> fault + ConcreteEsriGrid" where
  "dataLoop test r row lineNum linesExpected ceg =
     (case ReadString r of
        Inl e \<Rightarrow> Inr ceg
      | Inr (line, r') \<Rightarrow>
          if lineNum + 1 > linesExpected then Inr ceg
          else
            let numbers = strings_Split (stripSpaces line)
            in if int (length numbers) > ncols ceg
               then dataLoop test r' (row + 1) (lineNum + 1) linesExpected ceg
               else if int (length numbers) < ncols ceg
               then dataLoop test r' (row + 1) (lineNum + 1) linesExpected ceg
               else (case setRow test numbers row 0 ceg of
                       Inl e \<Rightarrow> Inl e
                     | Inr ceg' \<Rightarrow> dataLoop test r' (row + 1) (lineNum + 1) linesExpected ceg'))"
  by pat_completeness auto
termination
proof (relation "measure (\<lambda>(test, r, row, lineNum, linesExpected, ceg). length r)")
  show "wf (measure (\<lambda>(test, r, row, lineNum, linesExpected, ceg). length r))"
    by simp
next
  fix r :: string and x2 :: "string \<times> string" and line r' :: string
  assume "ReadString r = Inr x2" and "(line, r') = x2"
  then have "newline \<in> set r" and "r' = tl (dropWhile (\<lambda>c. c \<noteq> newline) r)"
    by (auto simp: ReadString_def split: if_splits)
  then have "dropWhile (\<lambda>c. c \<noteq> newline) r \<noteq> []" and "length r' < length (dropWhile (\<lambda>c. c \<noteq> newline) r)"
    by auto
  then have len: "length r' < length r"
    using length_dropWhile_le [of "\<lambda>c. c \<noteq> newline" r] by linarith
  fix test :: noDataTest and row lineNum linesExpected :: int and ceg ceg' :: ConcreteEsriGrid
  show "((test, r', row + 1, lineNum + 1, linesExpected, ceg),
         (test, r, row, lineNum, linesExpected, ceg)) \<in> measure (\<lambda>(test, r, row, lineNum, linesExpected, ceg). length r)"
    using len by simp
  show "((test, r', row + 1, lineNum + 1, linesExpected, ceg),
         (test, r, row, lineNum, linesExpected, ceg)) \<in> measure (\<lambda>(test, r, row, lineNum, linesExpected, ceg). length r)"
    using len by simp
  show "((test, r', row + 1, lineNum + 1, linesExpected, ceg'),
         (test, r, row, lineNum, linesExpected, ceg)) \<in> measure (\<lambda>(test, r, row, lineNum, linesExpected, ceg). length r)"
    using len by simp
qed

text \<open>
  \<open>ReadEsriGridFromFile\<close>, lines 187 to 358. The file system is a map from names to
  contents; a name without contents cannot be opened. The six header fields are read in
  order, the matrix is allocated after the second, and \<open>lineNum\<close> is 6 when the data loop
  starts. An error ends the call; the model keeps the error and not the partly filled
  grid.
\<close>

definition ReadEsriGridFromFile ::
  "noDataTest \<Rightarrow> (string \<rightharpoonup> string) \<Rightarrow> string \<Rightarrow> ConcreteEsriGrid \<Rightarrow> fault + ConcreteEsriGrid" where
  "ReadEsriGridFromFile test fs filename ceg =
     (case fs filename of
        None \<Rightarrow> Inl OpenError
      | Some r0 \<Rightarrow>
     (case readIntFromHeader r0 ''ncols'' of
        Inl e \<Rightarrow> Inl e
      | Inr (nc, r1) \<Rightarrow>
     (case readIntFromHeader r1 ''nrows'' of
        Inl e \<Rightarrow> Inl e
      | Inr (nr, r2) \<Rightarrow>
     (case makeHeight nr nc of
        Inl e \<Rightarrow> Inl e
      | Inr m \<Rightarrow>
     (case readFloat32FromHeader r2 ''xllcorner'' of
        Inl e \<Rightarrow> Inl e
      | Inr (x, r3) \<Rightarrow>
     (case readFloat32FromHeader r3 ''yllcorner'' of
        Inl e \<Rightarrow> Inl e
      | Inr (y, r4) \<Rightarrow>
     (case readFloat32FromHeader r4 ''cellsize'' of
        Inl e \<Rightarrow> Inl e
      | Inr (cs, r5) \<Rightarrow>
     (case readFloat32FromHeader r5 ''NODATA_value'' of
        Inl e \<Rightarrow> Inl e
      | Inr (nd, r6) \<Rightarrow>
          dataLoop test r6 0 6 (nr + 6)
            (ceg\<lparr>ncols := nc, nrows := nr, height := m, xllcorner := x, yllcorner := y,
                 cellsize := cs, noDataValue := nd\<rparr>)))))))))"

section \<open>Notions used in the statements\<close>

text \<open>
  \<open>matrix_ok\<close>: the matrix has the shape that the dimension fields announce, as it has
  after the allocation of lines 249 to 253. \<open>in_range\<close>: the valid range of a pair of
  indices. \<open>stats_ok\<close>: the observed minimum is not above the observed maximum when both
  are set.
\<close>

definition matrix_ok :: "ConcreteEsriGrid \<Rightarrow> bool" where
  "matrix_ok ceg =
     (length (height ceg) = nat (nrows ceg) \<and>
      list_all (\<lambda>r. length r = nat (ncols ceg)) (height ceg))"

definition in_range :: "ConcreteEsriGrid \<Rightarrow> int \<Rightarrow> int \<Rightarrow> bool" where
  "in_range ceg row col = (0 \<le> row \<and> row < nrows ceg \<and> 0 \<le> col \<and> col < ncols ceg)"

definition stats_ok :: "ConcreteEsriGrid \<Rightarrow> bool" where
  "stats_ok ceg = (minHeightSet ceg \<and> maxHeightSet ceg \<longrightarrow> minHeight ceg \<le> maxHeight ceg)"

text \<open>A sequence of calls of \<open>SetHeight\<close>, in order; a panic ends it.\<close>

fun SetHeights :: "noDataTest \<Rightarrow> (int \<times> int \<times> real) list \<Rightarrow> ConcreteEsriGrid \<Rightarrow> fault + ConcreteEsriGrid" where
  "SetHeights test [] ceg = Inr ceg"
| "SetHeights test ((row, col, h) # calls) ceg =
     (case SetHeight test row col h ceg of
        Inl e \<Rightarrow> Inl e
      | Inr ceg' \<Rightarrow> SetHeights test calls ceg')"

text \<open>A grid of two rows and two columns of zeros, for the examples.\<close>

definition sampleGrid :: ConcreteEsriGrid where
  "sampleGrid = MakeEsriGrid\<lparr>ncols := 2, nrows := 2, noDataValue := - 9999, height := [[0, 0], [0, 0]]\<rparr>"

text \<open>The scalar setters, as data, and a sequence of them applied to a grid.\<close>

datatype setter = NCols int | NRows int | XllcornerS real | YllcornerS real | CellSizeS real | NoDataValueS real

fun applySetter :: "ConcreteEsriGrid \<Rightarrow> setter \<Rightarrow> ConcreteEsriGrid" where
  "applySetter ceg (NCols n) = SetNCols n ceg"
| "applySetter ceg (NRows n) = SetNRows n ceg"
| "applySetter ceg (XllcornerS x) = SetXllcorner x ceg"
| "applySetter ceg (YllcornerS x) = SetYllcorner x ceg"
| "applySetter ceg (CellSizeS x) = SetCellSize x ceg"
| "applySetter ceg (NoDataValueS x) = SetNoDataValue x ceg"

text \<open>\<open>covered\<close>: both extrema are set and the value lies between them.\<close>

definition covered :: "ConcreteEsriGrid \<Rightarrow> real \<Rightarrow> bool" where
  "covered ceg h = (minHeightSet ceg \<and> maxHeightSet ceg \<and> minHeight ceg \<le> h \<and> h \<le> maxHeight ceg)"

text \<open>
  The example file of the format documentation (the comment at lines 193 to 206 and the
  README), every line ended by a newline; and the same file with the value of the first
  header line missing.
\<close>

definition exampleFile :: string where
  "exampleFile =
     ''ncols         4'' @ newline #
     ''nrows         6'' @ newline #
     ''xllcorner     0.0'' @ newline #
     ''yllcorner     0.0'' @ newline #
     ''cellsize      50.0'' @ newline #
     ''NODATA_value  -9999'' @ newline #
     ''-9999 -9999 5 2'' @ newline #
     ''-9999 20 100 36'' @ newline #
     ''3 8 35 10'' @ newline #
     ''32 42 50 6'' @ newline #
     ''88 75 27 9'' @ newline #
     ''13 5 1 -9999'' @ [newline]"

definition missingValueFile :: string where
  "missingValueFile =
     ''ncols'' @ newline #
     ''nrows         6'' @ newline #
     ''xllcorner     0.0'' @ newline #
     ''yllcorner     0.0'' @ newline #
     ''cellsize      50.0'' @ newline #
     ''NODATA_value  -9999'' @ newline #
     ''-9999 -9999 5 2'' @ newline #
     ''-9999 20 100 36'' @ newline #
     ''3 8 35 10'' @ newline #
     ''32 42 50 6'' @ newline #
     ''88 75 27 9'' @ newline #
     ''13 5 1 -9999'' @ [newline]"

text \<open>
  The fields of a line as the reader sees them: the expression of lines 313 and 322 (and
  of the header readers) on the line without its newline.
\<close>

definition lineTokens :: "string \<Rightarrow> string list" where
  "lineTokens l = strings_Split (stripSpaces (l @ [newline]))"

text \<open>
  A well-formed file, as the format documentation describes it. A token is a non-empty
  string without white space. A header line is a name, one or more spaces, a value and a
  newline; the header is the six lines with the six names in order. A data line is its
  tokens with single spaces between them and a newline.
\<close>

definition tokenOK :: "string \<Rightarrow> bool" where
  "tokenOK t = (t \<noteq> [] \<and> list_all (\<lambda>c. \<not> isSpace c) t)"


definition headerLine :: "string \<Rightarrow> nat \<Rightarrow> string \<Rightarrow> string" where
  "headerLine name k v = name @ replicate (Suc k) (CHR '' '') @ v @ [newline]"

definition headerNames :: "string list" where
  "headerNames = [''ncols'', ''nrows'', ''xllcorner'', ''yllcorner'', ''cellsize'', ''NODATA_value'']"

definition gridHeader :: "(nat \<times> string) list \<Rightarrow> string" where
  "gridHeader kvs = concat (map (\<lambda>(name, (k, v)). headerLine name k v) (zip headerNames kvs))"


text \<open>
  A token scans when \<open>fmt.Sscanf\<close> with \<open>%f\<close> accepts it, and \<open>floatOf\<close> is then its value;
  a numeric token is a token that scans.
\<close>

definition floatOf :: "string \<Rightarrow> real" where
  "floatOf t = (case Sscanf_f t of Inl e \<Rightarrow> 0 | Inr v \<Rightarrow> v)"

definition scans :: "string \<Rightarrow> bool" where
  "scans t = (case Sscanf_f t of Inl e \<Rightarrow> False | Inr v \<Rightarrow> True)"



definition lineOK :: "int \<Rightarrow> string \<Rightarrow> bool" where
  "lineOK nc l =
     (newline \<notin> set l \<and>
      (if int (length (lineTokens l)) = nc then list_all scans (lineTokens l) else True))"





text \<open>
  The \<open>SetHeight\<close> calls that the data loop makes: for one line that has \<open>ncols\<close> fields,
  one call for each field from left to right; for the lines of a file, the calls of the
  lines in order, a line with another number of fields giving none.
\<close>

fun rowCalls :: "string list \<Rightarrow> int \<Rightarrow> int \<Rightarrow> (int \<times> int \<times> real) list" where
  "rowCalls [] row col = []"
| "rowCalls (t # ts) row col = (row, col, floatOf t) # rowCalls ts row (col + 1)"

fun fileCalls :: "int \<Rightarrow> string list \<Rightarrow> int \<Rightarrow> (int \<times> int \<times> real) list" where
  "fileCalls nc [] row = []"
| "fileCalls nc (l # ls) row =
     (if int (length (lineTokens l)) = nc then rowCalls (lineTokens l) row 0 else []) @
     fileCalls nc ls (row + 1)"

section \<open>Properties of the accessors and of \<open>SetHeight\<close>\<close>

lemma index2_in_range: "matrix_ok ceg \<Longrightarrow> index2 (height ceg) row col = in_range ceg row col"
  by (auto simp: matrix_ok_def index2_def in_range_def list_all_iff)

lemma store_fields [simp]:
  "ncols (store row col h ceg) = ncols ceg" "nrows (store row col h ceg) = nrows ceg"
  "noDataValue (store row col h ceg) = noDataValue ceg"
  "minHeight (store row col h ceg) = minHeight ceg" "maxHeight (store row col h ceg) = maxHeight ceg"
  "minHeightSet (store row col h ceg) = minHeightSet ceg" "maxHeightSet (store row col h ceg) = maxHeightSet ceg"
  "height (store row col h ceg) = (height ceg)[nat row := (height ceg ! nat row)[nat col := h]]"
  by (simp_all add: store_def)

lemma updateMax_fields [simp]:
  "ncols (updateMax h ceg) = ncols ceg" "nrows (updateMax h ceg) = nrows ceg"
  "noDataValue (updateMax h ceg) = noDataValue ceg" "height (updateMax h ceg) = height ceg"
  "minHeight (updateMax h ceg) = minHeight ceg" "minHeightSet (updateMax h ceg) = minHeightSet ceg"
  "maxHeightSet (updateMax h ceg)"
  "maxHeight (updateMax h ceg) = (if maxHeightSet ceg then max h (maxHeight ceg) else h)"
  by (simp_all add: updateMax_def)

lemma updateMin_fields [simp]:
  "ncols (updateMin h ceg) = ncols ceg" "nrows (updateMin h ceg) = nrows ceg"
  "noDataValue (updateMin h ceg) = noDataValue ceg" "height (updateMin h ceg) = height ceg"
  "maxHeight (updateMin h ceg) = maxHeight ceg" "maxHeightSet (updateMin h ceg) = maxHeightSet ceg"
  "minHeightSet (updateMin h ceg)"
  "minHeight (updateMin h ceg) = (if minHeightSet ceg then min h (minHeight ceg) else h)"
  by (simp_all add: updateMin_def)

lemma matrix_ok_update:
  assumes "matrix_ok ceg" "height ceg' = (height ceg)[i := (height ceg ! i)[j := h]]"
    "nrows ceg' = nrows ceg" "ncols ceg' = ncols ceg"
  shows "matrix_ok ceg'"
proof (cases "i < length (height ceg)")
  case True
  then have "length ((height ceg ! i)[j := h]) = nat (ncols ceg)"
    using assms(1) by (simp add: matrix_ok_def list_all_iff)
  then show ?thesis
    using assms set_update_subset_insert [of "height ceg" i "(height ceg ! i)[j := h]"]
    by (auto simp: matrix_ok_def list_all_iff)
next
  case False
  then have "height ceg' = height ceg"
    using assms(2) by (simp add: list_update_beyond)
  then show ?thesis
    using assms by (simp add: matrix_ok_def)
qed

lemma SetHeight_in_range:
  assumes "matrix_ok ceg" "in_range ceg row col"
  shows "SetHeight test row col h ceg =
           Inr (if test h (noDataValue ceg) then store row col h ceg
                else updateMin h (updateMax h (store row col h ceg)))"
  using assms index2_in_range [OF assms(1), of row col]
  by (simp add: SetHeight_def in_range_def)

lemma Height_store:
  "index2 (height ceg) row col \<Longrightarrow> Height (store row col h ceg) row col = Inr h"
  by (simp add: Height_def index2_def)

text \<open>
  C1. An in-range call \<open>SetHeight(row, col, value)\<close> whose value equals the grid's
  \<open>noDataValue\<close> returns, leaves \<open>MinHeight()\<close>, \<open>MaxHeight()\<close> and the two flags as they
  were, and has written the cell. This holds for every reading of line 162 under which
  the test succeeds on a value equal to \<open>noDataValue\<close>, so for the line as written and for
  the line as meant.
\<close>

theorem SetHeight_noData_keeps_extrema:
  assumes "matrix_ok ceg" and "in_range ceg row col"
    and "test (noDataValue ceg) (noDataValue ceg)"
  shows "\<exists>ceg'. SetHeight test row col (noDataValue ceg) ceg = Inr ceg' \<and>
           MinHeight ceg' = MinHeight ceg \<and> MaxHeight ceg' = MaxHeight ceg \<and>
           minHeightSet ceg' = minHeightSet ceg \<and> maxHeightSet ceg' = maxHeightSet ceg \<and>
           Height ceg' row col = Inr (noDataValue ceg)"
proof -
  have ix: "index2 (height ceg) row col"
    using assms by (simp add: index2_in_range)
  have "SetHeight test row col (noDataValue ceg) ceg = Inr (store row col (noDataValue ceg) ceg)"
    using assms by (simp add: SetHeight_in_range)
  then show ?thesis
    using Height_store [OF ix] by (simp add: MinHeight_def MaxHeight_def)
qed

theorem SetHeight_noData_keeps_extrema_witness:
  "matrix_ok sampleGrid \<and> in_range sampleGrid 1 0 \<and>
   asMeant (noDataValue sampleGrid) (noDataValue sampleGrid) \<and>
   asWritten (noDataValue sampleGrid) (noDataValue sampleGrid) \<and>
   (\<exists>ceg'. SetHeight asMeant 1 0 (noDataValue sampleGrid) sampleGrid = Inr ceg' \<and>
           MinHeight ceg' = MinHeight sampleGrid \<and> MaxHeight ceg' = MaxHeight sampleGrid \<and>
           minHeightSet ceg' = minHeightSet sampleGrid \<and>
           maxHeightSet ceg' = maxHeightSet sampleGrid \<and>
           Height ceg' 1 0 = Inr (noDataValue sampleGrid)) \<and>
   (\<exists>ceg'. SetHeight asWritten 1 0 (noDataValue sampleGrid) sampleGrid = Inr ceg' \<and>
           MinHeight ceg' = MinHeight sampleGrid \<and> MaxHeight ceg' = MaxHeight sampleGrid \<and>
           minHeightSet ceg' = minHeightSet sampleGrid \<and>
           maxHeightSet ceg' = maxHeightSet sampleGrid \<and>
           Height ceg' 1 0 = Inr (noDataValue sampleGrid))"
proof -
  have m: "matrix_ok sampleGrid"
    by (simp add: matrix_ok_def sampleGrid_def MakeEsriGrid_def)
  have r: "in_range sampleGrid 1 0"
    by (simp add: in_range_def sampleGrid_def MakeEsriGrid_def)
  have a: "asMeant (noDataValue sampleGrid) (noDataValue sampleGrid)"
    by (simp add: asMeant_def)
  have b: "asWritten (noDataValue sampleGrid) (noDataValue sampleGrid)"
    by (simp add: asWritten_def)
  show ?thesis
    using m r a b
      SetHeight_noData_keeps_extrema [where test = asMeant, OF m r a]
      SetHeight_noData_keeps_extrema [where test = asWritten, OF m r b]
    by simp
qed

text \<open>
  C5, as stated, fails: the guard of \<open>SetHeight\<close> tests the upper bounds only, so a
  negative row with a column below \<open>ncols\<close> passes the guard and the store panics; the
  call does not return.
\<close>

theorem SetHeight_negative_row_panics:
  "\<not> in_range sampleGrid (- 1) 0 \<and> SetHeight asMeant (- 1) 0 5 sampleGrid = Inl Panic \<and>
   SetHeight asWritten (- 1) 0 5 sampleGrid = Inl Panic"
  by (simp add: in_range_def SetHeight_def index2_def sampleGrid_def MakeEsriGrid_def)

text \<open>
  C5, amended. For every \<open>(row, col)\<close> with \<open>row \<ge> rowCount\<close> or \<open>col \<ge> columnCount\<close>,
  \<open>SetHeight(row, col, value)\<close> returns without mutating anything: the grid after the call
  is the grid before it, in every field.
\<close>

theorem SetHeight_rejects_upper_bound:
  "row \<ge> nrows ceg \<or> col \<ge> ncols ceg \<Longrightarrow> SetHeight test row col h ceg = Inr ceg"
  by (simp add: SetHeight_def)

theorem SetHeight_rejects_upper_bound_witness:
  "(2 \<ge> nrows sampleGrid \<or> 0 \<ge> ncols sampleGrid) \<and>
   SetHeight asMeant 2 0 5 sampleGrid = Inr sampleGrid \<and>
   SetHeight asWritten 2 0 5 sampleGrid = Inr sampleGrid"
proof -
  have h: "2 \<ge> nrows sampleGrid \<or> 0 \<ge> ncols sampleGrid"
    by (simp add: sampleGrid_def MakeEsriGrid_def)
  show ?thesis
    using h SetHeight_rejects_upper_bound [OF h, of asMeant 5]
      SetHeight_rejects_upper_bound [OF h, of asWritten 5] by simp
qed

text \<open>
  C9. \<open>Height(row, col)\<close> checks no bounds of its own. On a grid whose matrix is allocated
  for its dimensions the access panics exactly when the pair of indices is outside the
  valid range, and inside the range it returns the cell; on a grid without a matrix
  every access panics.
\<close>

theorem Height_no_bounds_check:
  "(matrix_ok ceg \<longrightarrow> (Height ceg row col = Inl Panic) = (\<not> in_range ceg row col)) \<and>
   (matrix_ok ceg \<and> in_range ceg row col \<longrightarrow>
      Height ceg row col = Inr (height ceg ! nat row ! nat col)) \<and>
   (height ceg = [] \<longrightarrow> Height ceg row col = Inl Panic)"
  by (auto simp: Height_def index2_in_range) (simp add: index2_def)

theorem Height_no_bounds_check_witness:
  "matrix_ok sampleGrid \<and> in_range sampleGrid 1 0 \<and> \<not> in_range sampleGrid 2 0 \<and>
   \<not> in_range sampleGrid 0 (- 1) \<and>
   Height sampleGrid 1 0 = Inr 0 \<and> Height sampleGrid 2 0 = Inl Panic \<and>
   Height sampleGrid 0 (- 1) = Inl Panic \<and>
   height MakeEsriGrid = [] \<and> Height MakeEsriGrid 0 0 = Inl Panic"
proof -
  have m: "matrix_ok sampleGrid"
    by (simp add: matrix_ok_def sampleGrid_def MakeEsriGrid_def)
  have r: "in_range sampleGrid 1 0" "\<not> in_range sampleGrid 2 0" "\<not> in_range sampleGrid 0 (- 1)"
    by (simp_all add: in_range_def sampleGrid_def MakeEsriGrid_def)
  have e: "height MakeEsriGrid = []"
    by (simp add: MakeEsriGrid_def)
  have v: "height sampleGrid ! nat 1 ! nat 0 = 0"
    by (simp add: sampleGrid_def)
  show ?thesis
    using m r e v Height_no_bounds_check [of sampleGrid 1 0]
      Height_no_bounds_check [of sampleGrid 2 0] Height_no_bounds_check [of sampleGrid 0 "- 1"]
      Height_no_bounds_check [of MakeEsriGrid 0 0]
    by simp
qed

lemma applySetter_height: "height (applySetter ceg s) = height ceg"
  by (cases s) (simp_all add: SetNCols_def SetNRows_def SetXllcorner_def SetYllcorner_def SetCellSize_def SetNoDataValue_def)

lemma foldl_applySetter_height: "height (foldl applySetter ceg ss) = height ceg"
  by (induction ss arbitrary: ceg) (simp_all add: applySetter_height)

text \<open>
  C10. \<open>SetNCols\<close> and \<open>SetNRows\<close> change the one dimension field and nothing else. On a
  grid made by \<open>MakeEsriGrid\<close> and changed by the scalar setters only, the matrix is
  still absent, and every \<open>SetHeight\<close> call with indices in the valid range panics at
  the store instead of writing a cell.
\<close>

theorem setters_never_allocate:
  "SetNCols n ceg = ceg\<lparr>ncols := n\<rparr> \<and> SetNRows n ceg = ceg\<lparr>nrows := n\<rparr> \<and>
   height (foldl applySetter MakeEsriGrid ss) = [] \<and>
   (in_range (foldl applySetter MakeEsriGrid ss) row col \<longrightarrow>
      SetHeight test row col h (foldl applySetter MakeEsriGrid ss) = Inl Panic)"
proof -
  have "height (foldl applySetter MakeEsriGrid ss) = []"
    by (simp add: foldl_applySetter_height MakeEsriGrid_def)
  then show ?thesis
    by (simp add: SetNCols_def SetNRows_def SetHeight_def index2_def in_range_def)
qed

theorem setters_never_allocate_witness:
  "in_range (foldl applySetter MakeEsriGrid [NCols 4, NRows 6]) 5 0 \<and>
   height (foldl applySetter MakeEsriGrid [NCols 4, NRows 6]) = [] \<and>
   SetHeight asMeant 5 0 13 (foldl applySetter MakeEsriGrid [NCols 4, NRows 6]) = Inl Panic \<and>
   SetHeight asWritten 5 0 13 (foldl applySetter MakeEsriGrid [NCols 4, NRows 6]) = Inl Panic"
proof -
  have r: "in_range (foldl applySetter MakeEsriGrid [NCols 4, NRows 6]) 5 0"
    by (simp add: in_range_def SetNCols_def SetNRows_def MakeEsriGrid_def)
  show ?thesis
    using r setters_never_allocate [of 0 MakeEsriGrid "[NCols 4, NRows 6]" 5 0 asMeant 13]
      setters_never_allocate [of 0 MakeEsriGrid "[NCols 4, NRows 6]" 5 0 asWritten 13] by blast
qed

lemma SetHeight_keeps_shape:
  assumes "matrix_ok ceg" "in_range ceg row col" "SetHeight test row col h ceg = Inr ceg'"
  shows "matrix_ok ceg' \<and> nrows ceg' = nrows ceg \<and> ncols ceg' = ncols ceg \<and>
         noDataValue ceg' = noDataValue ceg"
proof -
  have eq: "ceg' = (if test h (noDataValue ceg) then store row col h ceg
                 else updateMin h (updateMax h (store row col h ceg)))"
    using assms by (simp add: SetHeight_in_range)
  have "matrix_ok ceg'"
    by (rule matrix_ok_update [OF assms(1), of _ "nat row" "nat col" h]) (simp_all add: eq)
  then show ?thesis
    by (simp add: eq)
qed

lemma SetHeight_keeps_stats_ok:
  assumes "matrix_ok ceg" "in_range ceg row col" "SetHeight test row col h ceg = Inr ceg'" "stats_ok ceg"
  shows "stats_ok ceg'"
proof -
  have eq: "ceg' = (if test h (noDataValue ceg) then store row col h ceg
                 else updateMin h (updateMax h (store row col h ceg)))"
    using assms by (simp add: SetHeight_in_range)
  show ?thesis
    using assms(4) by (auto simp: eq stats_ok_def)
qed

lemma SetHeight_covers_value:
  assumes "matrix_ok ceg" "in_range ceg row col" "SetHeight test row col h ceg = Inr ceg'"
    "\<not> test h (noDataValue ceg)"
  shows "covered ceg' h"
proof -
  have eq: "ceg' = updateMin h (updateMax h (store row col h ceg))"
    using assms by (simp add: SetHeight_in_range)
  show ?thesis
    by (auto simp: eq covered_def)
qed

lemma SetHeight_keeps_covered:
  assumes "matrix_ok ceg" "in_range ceg row col" "SetHeight test row col h ceg = Inr ceg'"
    "covered ceg x"
  shows "covered ceg' x"
proof -
  have eq: "ceg' = (if test h (noDataValue ceg) then store row col h ceg
                 else updateMin h (updateMax h (store row col h ceg)))"
    using assms by (simp add: SetHeight_in_range)
  show ?thesis
    using assms(4) by (auto simp: eq covered_def)
qed

lemma SetHeights_invariant:
  assumes "matrix_ok ceg" "\<forall>(row, col, h) \<in> set calls. in_range ceg row col"
  shows "\<exists>ceg'. SetHeights test calls ceg = Inr ceg' \<and> matrix_ok ceg' \<and>
           nrows ceg' = nrows ceg \<and> ncols ceg' = ncols ceg \<and>
           noDataValue ceg' = noDataValue ceg \<and>
           (stats_ok ceg \<longrightarrow> stats_ok ceg') \<and>
           (\<forall>x. covered ceg x \<longrightarrow> covered ceg' x) \<and>
           (\<forall>(row, col, h) \<in> set calls. \<not> test h (noDataValue ceg) \<longrightarrow> covered ceg' h)"
  using assms
proof (induction calls arbitrary: ceg)
  case Nil
  then show ?case by simp
next
  case (Cons c calls)
  obtain row col h where c: "c = (row, col, h)"
    by (cases c) auto
  have r: "in_range ceg row col"
    using Cons.prems(2) by (simp add: c)
  obtain ceg1 where s1: "SetHeight test row col h ceg = Inr ceg1"
    using SetHeight_in_range [OF Cons.prems(1) r] by simp
  note shape = SetHeight_keeps_shape [OF Cons.prems(1) r s1]
  have rs: "\<forall>(row, col, h) \<in> set calls. in_range ceg1 row col"
    using Cons.prems(2) shape by (auto simp: in_range_def)
  from Cons.IH [OF _ rs] shape
  obtain ceg' where rest: "SetHeights test calls ceg1 = Inr ceg'" "matrix_ok ceg'"
    "nrows ceg' = nrows ceg1" "ncols ceg' = ncols ceg1" "noDataValue ceg' = noDataValue ceg1"
    "stats_ok ceg1 \<longrightarrow> stats_ok ceg'" "\<forall>x. covered ceg1 x \<longrightarrow> covered ceg' x"
    "\<forall>(row, col, h) \<in> set calls. \<not> test h (noDataValue ceg1) \<longrightarrow> covered ceg' h"
    by blast
  have a: "stats_ok ceg \<longrightarrow> stats_ok ceg'"
    using rest(6) SetHeight_keeps_stats_ok [OF Cons.prems(1) r s1] by blast
  have b: "\<forall>x. covered ceg x \<longrightarrow> covered ceg' x"
    using rest(7) SetHeight_keeps_covered [OF Cons.prems(1) r s1] by blast
  have d: "\<not> test h (noDataValue ceg) \<longrightarrow> covered ceg' h"
    using rest(7) SetHeight_covers_value [OF Cons.prems(1) r s1] by blast
  have e: "\<forall>(row, col, h) \<in> set calls. \<not> test h (noDataValue ceg) \<longrightarrow> covered ceg' h"
    using rest(8) shape by simp
  show ?case
    using rest(1-5) shape a b d e by (simp add: c s1)
qed

lemma SetHeights_asMeant_within_extrema:
  assumes "matrix_ok ceg" and "stats_ok ceg"
    and "\<forall>(row, col, h) \<in> set calls. in_range ceg row col"
  shows "\<exists>ceg'. SetHeights asMeant calls ceg = Inr ceg' \<and>
           (\<forall>(row, col, h) \<in> set calls.
              h \<noteq> noDataValue ceg \<longrightarrow> MinHeight ceg' \<le> h \<and> h \<le> MaxHeight ceg') \<and>
           (minHeightSet ceg' \<and> maxHeightSet ceg' \<longrightarrow> MinHeight ceg' \<le> MaxHeight ceg')"
proof -
  from SetHeights_invariant [OF assms(1) assms(3), of asMeant] assms(2)
  obtain ceg' where r: "SetHeights asMeant calls ceg = Inr ceg'" "stats_ok ceg'"
    "\<forall>(row, col, h) \<in> set calls. \<not> asMeant h (noDataValue ceg) \<longrightarrow> covered ceg' h"
    by blast
  have "\<forall>(row, col, h) \<in> set calls.
          h \<noteq> noDataValue ceg \<longrightarrow> MinHeight ceg' \<le> h \<and> h \<le> MaxHeight ceg'"
    using r(3) by (auto simp: covered_def MinHeight_def MaxHeight_def asMeant_def)
  moreover have "minHeightSet ceg' \<and> maxHeightSet ceg' \<longrightarrow> MinHeight ceg' \<le> MaxHeight ceg'"
    using r(2) by (simp add: stats_ok_def MinHeight_def MaxHeight_def)
  ultimately show ?thesis
    using r(1) by blast
qed

lemma SetHeight_asWritten_keeps_extrema:
  "SetHeight asWritten row col h ceg = Inr ceg' \<Longrightarrow>
   maxHeight ceg' = maxHeight ceg \<and> minHeight ceg' = minHeight ceg \<and>
   maxHeightSet ceg' = maxHeightSet ceg \<and> minHeightSet ceg' = minHeightSet ceg"
  by (auto simp: SetHeight_def asWritten_def store_def split: if_splits)

text \<open>
  C2 asks that after any sequence of in-range \<open>SetHeight\<close> calls every value written
  that is not equal to \<open>noDataValue\<close> lies between \<open>MinHeight()\<close> and \<open>MaxHeight()\<close>, and
  that \<open>MinHeight()\<close> is not above \<open>MaxHeight()\<close> when both are set. With the comparison
  that line 162 means this holds (\<open>SetHeights_asMeant_within_extrema\<close>). With line 162
  as written, every call returns before the extrema are touched: after the value 5 is
  written into a new grid of two rows and two columns whose \<open>noDataValue\<close> is -9999,
  both extrema are still 0 and unset, and 5 is not below \<open>MaxHeight()\<close>.
\<close>

theorem extrema_not_tracked_as_written:
  "\<exists>ceg'. SetHeights asWritten [(0, 0, 5)] sampleGrid = Inr ceg' \<and>
      Height ceg' 0 0 = Inr 5 \<and> NoDataValue ceg' = - 9999 \<and>
      MinHeight ceg' = 0 \<and> MaxHeight ceg' = 0 \<and>
      \<not> minHeightSet ceg' \<and> \<not> maxHeightSet ceg' \<and> \<not> 5 \<le> MaxHeight ceg'"
  by (simp add: SetHeight_def asWritten_def index2_def store_def sampleGrid_def
      MakeEsriGrid_def Height_def NoDataValue_def MinHeight_def MaxHeight_def)

section \<open>Properties of the reader\<close>

subsection \<open>One line at a time\<close>

lemma takeWhile_line: "c \<notin> set l \<Longrightarrow> takeWhile (\<lambda>x. x \<noteq> c) (l @ c # r) = l"
  by (induction l) auto

lemma dropWhile_line: "c \<notin> set l \<Longrightarrow> dropWhile (\<lambda>x. x \<noteq> c) (l @ c # r) = c # r"
  by (induction l) auto

lemma ReadString_line:
  "newline \<notin> set l \<Longrightarrow> ReadString (l @ newline # r) = Inr (l @ [newline], r)"
  by (simp add: ReadString_def takeWhile_line dropWhile_line)
   
lemma ReadString_EOF: "newline \<notin> set r \<Longrightarrow> ReadString r = Inl EOF"
  by (simp add: ReadString_def)

declare dataLoop.simps [simp del]

lemma dataLoop_EOF: "newline \<notin> set r \<Longrightarrow> dataLoop test r row lineNum linesExpected ceg = Inr ceg"
  by (subst dataLoop.simps) (simp add: ReadString_EOF)

lemma dataLoop_stop:
  "newline \<notin> set l \<Longrightarrow> lineNum + 1 > linesExpected \<Longrightarrow>
   dataLoop test (l @ newline # r) row lineNum linesExpected ceg = Inr ceg"
  by (subst dataLoop.simps) (simp add: ReadString_line)

lemma dataLoop_skip:
  "newline \<notin> set l \<Longrightarrow> lineNum + 1 \<le> linesExpected \<Longrightarrow>
   int (length (strings_Split (stripSpaces (l @ [newline])))) \<noteq> ncols ceg \<Longrightarrow>
   dataLoop test (l @ newline # r) row lineNum linesExpected ceg =
     dataLoop test r (row + 1) (lineNum + 1) linesExpected ceg"
  by (subst dataLoop.simps) (auto simp: ReadString_line Let_def)

lemma dataLoop_line:
  "newline \<notin> set l \<Longrightarrow> lineNum + 1 \<le> linesExpected \<Longrightarrow>
   strings_Split (stripSpaces (l @ [newline])) = numbers \<Longrightarrow>
   int (length numbers) = ncols ceg \<Longrightarrow>
   dataLoop test (l @ newline # r) row lineNum linesExpected ceg =
     (case setRow test numbers row 0 ceg of
        Inl e \<Rightarrow> Inl e
      | Inr ceg' \<Rightarrow> dataLoop test r (row + 1) (lineNum + 1) linesExpected ceg')"
  by (subst dataLoop.simps) (auto simp: ReadString_line Let_def)

lemma readIntFromHeader_line:
  "newline \<notin> set l \<Longrightarrow> strings_Split (stripSpaces (l @ [newline])) = name # tok # rest \<Longrightarrow>
   readIntFromHeader (l @ newline # r) fieldName =
     (case Sscanf_d tok of Inl e \<Rightarrow> Inl e | Inr v \<Rightarrow> Inr (v, r))"
  by (simp add: readIntFromHeader_def ReadString_line)

lemma readFloat32FromHeader_line:
  "newline \<notin> set l \<Longrightarrow> strings_Split (stripSpaces (l @ [newline])) = name # tok # rest \<Longrightarrow>
   readFloat32FromHeader (l @ newline # r) fieldName =
     (case Sscanf_f tok of Inl e \<Rightarrow> Inl e | Inr v \<Rightarrow> Inr (v, r))"
  by (simp add: readFloat32FromHeader_def ReadString_line)

lemmas scan_defs = Sscanf_f_def Sscanf_d_def isSpace_def startsWith_def acceptSign_def
  digitOrUnderscore_def isDigit_def digitsVal_def maxFloat32Bound_def

lemmas strip_defs = stripSpaces_def strings_TrimSpace_def isSpace_def newline_def

lemmas parse_defs = ReadEsriGridFromFile_def readIntFromHeader_def readFloat32FromHeader_def
  ReadString_def makeHeight_def dataLoop.simps SetHeight_def index2_def store_def
  updateMax_def updateMin_def MakeEsriGrid_def asMeant_def asWritten_def

lemma exampleFile_parsed_asMeant:
  "ReadEsriGridFromFile asMeant [''example.asc'' \<mapsto> exampleFile] ''example.asc'' MakeEsriGrid =
     Inr \<lparr>ncols = 4, nrows = 6, xllcorner = 0, yllcorner = 0, cellsize = 50,
        noDataValue = - 9999, maxHeight = 100, minHeight = 1,
        height =
          [[- 9999, - 9999, 5, 2], [- 9999, 20, 100, 36], [3, 8, 35, 10],
           [32, 42, 50, 6], [88, 75, 27, 9], [13, 5, 1, - 9999]],
        minHeightSet = True, maxHeightSet = True, verbose = False\<rparr>"
  by (simp add: exampleFile_def parse_defs strip_defs scan_defs) (simp add: eval_nat_numeral)

lemma exampleFile_parsed_asWritten:
  "ReadEsriGridFromFile asWritten [''example.asc'' \<mapsto> exampleFile] ''example.asc'' MakeEsriGrid =
     Inr \<lparr>ncols = 4, nrows = 6, xllcorner = 0, yllcorner = 0, cellsize = 50,
        noDataValue = - 9999, maxHeight = 0, minHeight = 0,
        height =
          [[- 9999, - 9999, 5, 2], [- 9999, 20, 100, 36], [3, 8, 35, 10],
           [32, 42, 50, 6], [88, 75, 27, 9], [13, 5, 1, - 9999]],
        minHeightSet = False, maxHeightSet = False, verbose = False\<rparr>"
  by (simp add: exampleFile_def parse_defs strip_defs scan_defs) (simp add: eval_nat_numeral)

lemma example_file_round_trip_asMeant:
  "\<exists>ceg. ReadEsriGridFromFile asMeant [''example.asc'' \<mapsto> exampleFile] ''example.asc'' MakeEsriGrid = Inr ceg \<and>
      Ncols ceg = 4 \<and> Nrows ceg = 6 \<and> CellSize ceg = 50 \<and> NoDataValue ceg = - 9999 \<and>
      MaxHeight ceg = 100 \<and> MinHeight ceg = 1 \<and> Height ceg 5 0 = Inr 13"
  by (simp add: exampleFile_parsed_asMeant Ncols_def Nrows_def CellSize_def NoDataValue_def
      MaxHeight_def MinHeight_def Height_def index2_def)

text \<open>
  C3 asks that reading the documented example (six header lines, then six rows of four
  columns) succeeds, with \<open>Ncols() = 4\<close>, \<open>Nrows() = 6\<close>, \<open>CellSize() = 50.0\<close>,
  \<open>NoDataValue() = -9999\<close>, \<open>MaxHeight() = 100\<close>, \<open>MinHeight() = 1\<close> and
  \<open>Height(5, 0) = 13\<close>. With the comparison that line 162 means, it does
  (\<open>example_file_round_trip_asMeant\<close>). With line 162 as written the call succeeds and
  the dimensions, the cell size, the \<open>noDataValue\<close> and the cells are as claimed, but
  the extrema are never updated: \<open>MaxHeight()\<close> and \<open>MinHeight()\<close> are both 0.
\<close>

theorem example_file_extrema_as_written:
  "\<exists>ceg. ReadEsriGridFromFile asWritten [''example.asc'' \<mapsto> exampleFile] ''example.asc'' MakeEsriGrid = Inr ceg \<and>
      Ncols ceg = 4 \<and> Nrows ceg = 6 \<and> CellSize ceg = 50 \<and> NoDataValue ceg = - 9999 \<and>
      Height ceg 5 0 = Inr 13 \<and> MaxHeight ceg = 0 \<and> MinHeight ceg = 0"
  by (simp add: exampleFile_parsed_asWritten Ncols_def Nrows_def CellSize_def NoDataValue_def
      MaxHeight_def MinHeight_def Height_def index2_def)

text \<open>
  C6 asks that a header line without its value makes \<open>ReadEsriGridFromFile\<close> return an
  error. The two header readers index \<open>field[1]\<close> without a check of the number of
  fields (the data loop, by contrast, compares the number of fields with \<open>ncols\<close> before
  it indexes), so on the example file with the first line cut down to \<open>ncols\<close> the call
  panics and returns nothing to the caller. A number that does not scan is returned as
  an error, as the claim says; a successful call has read all six header values.
\<close>

theorem header_missing_value_panics:
  "ReadEsriGridFromFile test [''bad.asc'' \<mapsto> missingValueFile] ''bad.asc'' MakeEsriGrid = Inl Panic"
  by (simp add: missingValueFile_def parse_defs strip_defs)

lemma header_unparsable_number:
  "readIntFromHeader (''ncols abc'' @ newline # r) ''ncols'' = Inl ScanError"
  by (simp add: readIntFromHeader_def ReadString_def strip_defs scan_defs)

lemma header_errors_propagate:
  assumes "ReadEsriGridFromFile test fs filename ceg = Inr ceg'"
  shows "\<exists>r0 nc r1 nr r2 x r3 y r4 cs r5 nd r6.
           fs filename = Some r0 \<and>
           readIntFromHeader r0 ''ncols'' = Inr (nc, r1) \<and>
           readIntFromHeader r1 ''nrows'' = Inr (nr, r2) \<and>
           readFloat32FromHeader r2 ''xllcorner'' = Inr (x, r3) \<and>
           readFloat32FromHeader r3 ''yllcorner'' = Inr (y, r4) \<and>
           readFloat32FromHeader r4 ''cellsize'' = Inr (cs, r5) \<and>
           readFloat32FromHeader r5 ''NODATA_value'' = Inr (nd, r6)"
  using assms unfolding ReadEsriGridFromFile_def
  by (auto split: option.splits sum.splits prod.splits)

text \<open>
  C8 asks that any amount or kind of white space between two tokens gives the same
  tokens. \<open>stripSpaces\<close> replaces runs of two or more space characters only (its comment
  promises all white space within the string), so a tab between the name and the value
  of a header line stays inside one token: the line has one field, and the header reader
  panics on it, where the same line with a space is read as 4.
\<close>

theorem stripSpaces_keeps_tab:
  "strings_Split (stripSpaces (''ncols'' @ CHR 0x09 # ''4'' @ [newline])) = [''ncols'' @ CHR 0x09 # ''4''] \<and>
   strings_Split (stripSpaces (''ncols 4'' @ [newline])) = [''ncols'', ''4''] \<and>
   readIntFromHeader (''ncols'' @ CHR 0x09 # ''4'' @ [newline]) ''ncols'' = Inl Panic \<and>
   readIntFromHeader (''ncols 4'' @ [newline]) ''ncols'' = Inr (4, [])"
  by (simp add: readIntFromHeader_def ReadString_def strip_defs scan_defs)

subsection \<open>Tokens of a well-formed line\<close>

lemma isSpace_space [simp]: "isSpace (CHR '' '')" "isSpace newline"
  by (simp_all add: isSpace_def newline_def)

lemma tokenOK_chars: "tokenOK t \<Longrightarrow> c \<in> set t \<Longrightarrow> \<not> isSpace c"
  by (simp add: tokenOK_def list_all_iff)

lemma tokenOK_no_space: "tokenOK t \<Longrightarrow> CHR '' '' \<notin> set t"
  using tokenOK_chars by fastforce

lemma tokenOK_no_newline: "tokenOK t \<Longrightarrow> newline \<notin> set t"
  using tokenOK_chars by fastforce

lemma tokenOK_ends: "tokenOK t \<Longrightarrow> t \<noteq> [] \<and> \<not> isSpace (hd t) \<and> \<not> isSpace (last t)"
  by (auto simp: tokenOK_def list_all_iff)

lemma replaceSpaceRuns_nonspace:
  "c \<noteq> CHR '' '' \<Longrightarrow> replaceSpaceRuns (c # cs) = c # replaceSpaceRuns cs"
  by (cases cs) simp_all

lemma replaceSpaceRuns_token:
  "CHR '' '' \<notin> set t \<Longrightarrow> replaceSpaceRuns (t @ s) = t @ replaceSpaceRuns s"
  by (induction t) (auto simp: replaceSpaceRuns_nonspace)

lemma replaceSpaceRuns_gap:
  "u \<noteq> [] \<Longrightarrow> hd u \<noteq> CHR '' '' \<Longrightarrow>
   replaceSpaceRuns (replicate (Suc k) (CHR '' '') @ u) = CHR '' '' # replaceSpaceRuns u"
proof (induction k)
  case 0
  then show ?case by (cases u) simp_all
next
  case (Suc k)
  then show ?case by simp
qed

lemma strings_Split_token:
  "CHR '' '' \<notin> set t \<Longrightarrow> strings_Split (t @ CHR '' '' # s) = t # strings_Split s"
  by (induction t) auto

lemma strings_Split_last: "CHR '' '' \<notin> set t \<Longrightarrow> strings_Split t = [t]"
  by (induction t) auto

lemma TrimSpace_line:
  assumes "x \<noteq> []" "\<not> isSpace (hd x)" "\<not> isSpace (last x)"
  shows "strings_TrimSpace (x @ [newline]) = x"
proof -
  have a: "dropWhile isSpace (x @ [newline]) = x @ [newline]"
    using assms(1,2) by (cases x) simp_all
  have b: "dropWhile isSpace (rev x) = rev x"
    using assms(1,3) by (cases x rule: rev_cases) simp_all
  show ?thesis
    by (simp add: strings_TrimSpace_def a b)
qed






lemma lineTokens_header:
  assumes "tokenOK name" "tokenOK v"
  shows "lineTokens (name @ replicate (Suc k) (CHR '' '') @ v) = [name, v]"
proof -
  let ?x = "name @ replicate (Suc k) (CHR '' '') @ v"
  have "strings_TrimSpace (?x @ [newline]) = ?x"
    using tokenOK_ends [OF assms(1)] tokenOK_ends [OF assms(2)]
    by (intro TrimSpace_line) simp_all
  moreover have "replaceSpaceRuns ?x = name @ CHR '' '' # v"
  proof -
    have v: "replaceSpaceRuns v = v"
      using replaceSpaceRuns_token [of v "[]"] assms(2) by (simp add: tokenOK_no_space)
    have "hd v \<noteq> CHR '' ''" "v \<noteq> []"
      using tokenOK_ends [OF assms(2)] by auto
    then have "replaceSpaceRuns (replicate (Suc k) (CHR '' '') @ v) = CHR '' '' # v"
      using replaceSpaceRuns_gap [of v k] v by simp
    then show ?thesis
      using replaceSpaceRuns_token [of name "replicate (Suc k) (CHR '' '') @ v"] assms(1)
      by (simp add: tokenOK_no_space)
  qed
  ultimately show ?thesis
    using assms by (simp add: lineTokens_def stripSpaces_def strings_Split_token
        strings_Split_last tokenOK_no_space)
qed

subsection \<open>The data loop on a list of lines\<close>

lemma scans_floatOf: "scans t \<Longrightarrow> Sscanf_f t = Inr (floatOf t)"
  by (simp add: scans_def floatOf_def split: sum.splits)

lemma take_Suc_update: "r < length xs \<Longrightarrow> take (Suc r) (xs[r := a]) = take r xs @ [a]"
  by (simp add: take_Suc_conv_app_nth)

lemma SetHeight_height:
  assumes "matrix_ok ceg" "in_range ceg row col" "SetHeight test row col h ceg = Inr ceg'"
  shows "height ceg' = (height ceg)[nat row := (height ceg ! nat row)[nat col := h]]"
proof -
  have "ceg' = (if test h (noDataValue ceg) then store row col h ceg
                 else updateMin h (updateMax h (store row col h ceg)))"
    using assms by (simp add: SetHeight_in_range)
  then show ?thesis by simp
qed

lemma setRow_writes:
  assumes "matrix_ok ceg" "0 \<le> row" "row < nrows ceg" "0 \<le> col"
    "col + int (length toks) \<le> ncols ceg" "list_all scans toks"
  shows "\<exists>ceg'. setRow test toks row col ceg = Inr ceg' \<and> matrix_ok ceg' \<and>
           nrows ceg' = nrows ceg \<and> ncols ceg' = ncols ceg \<and>
           height ceg' =
             (height ceg)[nat row := take (nat col) (height ceg ! nat row) @ map floatOf toks @
                                     drop (nat col + length toks) (height ceg ! nat row)]"
  using assms
proof (induction toks arbitrary: col ceg)
  case Nil
  then show ?case by simp
next
  case (Cons t ts)
  let ?R = "height ceg ! nat row"
  have rlen: "nat row < length (height ceg)" "length ?R = nat (ncols ceg)"
    using Cons.prems(1-3) by (auto simp: matrix_ok_def list_all_iff)
  have clen: "nat col < length ?R"
    using Cons.prems(4,5) rlen by simp
  have sc: "Sscanf_f t = Inr (floatOf t)"
    using Cons.prems(6) by (simp add: scans_floatOf)
  have r: "in_range ceg row col"
    using Cons.prems(2-5) by (simp add: in_range_def)
  obtain ceg1 where s1: "SetHeight test row col (floatOf t) ceg = Inr ceg1"
    using SetHeight_in_range [OF Cons.prems(1) r] by simp
  note shape = SetHeight_keeps_shape [OF Cons.prems(1) r s1]
  note h1 = SetHeight_height [OF Cons.prems(1) r s1]
  have R1: "height ceg1 ! nat row = ?R[nat col := floatOf t]"
    using rlen by (simp add: h1)
  have "\<exists>ceg'. setRow test ts row (col + 1) ceg1 = Inr ceg' \<and> matrix_ok ceg' \<and>
           nrows ceg' = nrows ceg1 \<and> ncols ceg' = ncols ceg1 \<and>
           height ceg' =
             (height ceg1)[nat row := take (nat (col + 1)) (height ceg1 ! nat row) @ map floatOf ts @
                                     drop (nat (col + 1) + length ts) (height ceg1 ! nat row)]"
    using Cons.prems shape by (intro Cons.IH) simp_all
  then obtain ceg' where rest: "setRow test ts row (col + 1) ceg1 = Inr ceg'" "matrix_ok ceg'"
    "nrows ceg' = nrows ceg1" "ncols ceg' = ncols ceg1"
    "height ceg' =
             (height ceg1)[nat row := take (nat (col + 1)) (height ceg1 ! nat row) @ map floatOf ts @
                                     drop (nat (col + 1) + length ts) (height ceg1 ! nat row)]"
    by blast
  have n: "nat (col + 1) = Suc (nat col)"
    using Cons.prems(4) by simp
  have "take (nat (col + 1)) (height ceg1 ! nat row) = take (nat col) ?R @ [floatOf t]"
    using clen by (simp add: R1 n take_Suc_update)
  moreover have "drop (nat (col + 1) + length ts) (height ceg1 ! nat row) =
                 drop (nat col + length (t # ts)) ?R"
    by (simp add: R1 n)
  ultimately have "height ceg' =
      (height ceg)[nat row := take (nat col) ?R @ map floatOf (t # ts) @
                                     drop (nat col + length (t # ts)) ?R]"
    by (simp add: rest(5) h1)
  then show ?case
    using rest(1-4) shape by (simp add: sc s1)
qed

lemma setRow_full:
  assumes "matrix_ok ceg" "0 \<le> row" "row < nrows ceg"
    "int (length toks) = ncols ceg" "list_all scans toks"
  shows "\<exists>ceg'. setRow test toks row 0 ceg = Inr ceg' \<and> matrix_ok ceg' \<and>
           nrows ceg' = nrows ceg \<and> ncols ceg' = ncols ceg \<and>
           height ceg' = (height ceg)[nat row := map floatOf toks]"
proof -
  have "length (height ceg ! nat row) = length toks"
    using assms(1-4) by (auto simp: matrix_ok_def list_all_iff)
  then show ?thesis
    using setRow_writes [OF assms(1-3), of 0 toks] assms(4,5) by simp
qed




subsection \<open>The whole file\<close>

lemma readIntFromHeader_headerLine:
  assumes "tokenOK name" "tokenOK v"
  shows "readIntFromHeader (headerLine name k v @ r) fieldName =
           (case Sscanf_d v of Inl e \<Rightarrow> Inl e | Inr n \<Rightarrow> Inr (n, r))"
proof -
  let ?l = "name @ replicate (Suc k) (CHR '' '') @ v"
  have "newline \<noteq> CHR '' ''"
    by (simp add: newline_def)
  then have nl: "newline \<notin> set ?l"
    using assms by (auto simp: tokenOK_no_newline)
  have tk: "strings_Split (stripSpaces (?l @ [newline])) = name # v # []"
    using lineTokens_header [OF assms, of k] by (simp add: lineTokens_def)
  have "headerLine name k v @ r = ?l @ newline # r"
    by (simp add: headerLine_def)
  then show ?thesis
    using readIntFromHeader_line [OF nl tk, of r fieldName] by simp
qed

lemma readFloat32FromHeader_headerLine:
  assumes "tokenOK name" "tokenOK v"
  shows "readFloat32FromHeader (headerLine name k v @ r) fieldName =
           (case Sscanf_f v of Inl e \<Rightarrow> Inl e | Inr x \<Rightarrow> Inr (x, r))"
proof -
  let ?l = "name @ replicate (Suc k) (CHR '' '') @ v"
  have "newline \<noteq> CHR '' ''"
    by (simp add: newline_def)
  then have nl: "newline \<notin> set ?l"
    using assms by (auto simp: tokenOK_no_newline)
  have tk: "strings_Split (stripSpaces (?l @ [newline])) = name # v # []"
    using lineTokens_header [OF assms, of k] by (simp add: lineTokens_def)
  have "headerLine name k v @ r = ?l @ newline # r"
    by (simp add: headerLine_def)
  then show ?thesis
    using readFloat32FromHeader_line [OF nl tk, of r fieldName] by simp
qed

lemma headerNames_ok:
  "tokenOK ''ncols''" "tokenOK ''nrows''" "tokenOK ''xllcorner''" "tokenOK ''yllcorner''"
  "tokenOK ''cellsize''" "tokenOK ''NODATA_value''"
  by (simp_all add: tokenOK_def isSpace_def)

lemma gridHeader_parts:
  "gridHeader [(k1, t1), (k2, t2), (k3, t3), (k4, t4), (k5, t5), (k6, t6)] @ body =
     headerLine ''ncols'' k1 t1 @ headerLine ''nrows'' k2 t2 @ headerLine ''xllcorner'' k3 t3 @
     headerLine ''yllcorner'' k4 t4 @ headerLine ''cellsize'' k5 t5 @
     headerLine ''NODATA_value'' k6 t6 @ body"
  by (simp add: gridHeader_def headerNames_def)

lemma parse_header:
  assumes "fs filename = Some (gridHeader [(k1, t1), (k2, t2), (k3, t3), (k4, t4), (k5, t5), (k6, t6)] @ body)"
    and "list_all tokenOK [t1, t2, t3, t4, t5, t6]"
    and "Sscanf_d t1 = Inr nc" "Sscanf_d t2 = Inr nr" "list_all scans [t3, t4, t5, t6]"
    and "0 \<le> nc" "0 \<le> nr"
  shows "ReadEsriGridFromFile test fs filename ceg =
           dataLoop test body 0 6 (nr + 6)
             (ceg\<lparr>ncols := nc, nrows := nr,
                  height := replicate (nat nr) (replicate (nat nc) 0),
                  xllcorner := floatOf t3, yllcorner := floatOf t4, cellsize := floatOf t5,
                  noDataValue := floatOf t6\<rparr>)"
proof -
  have t: "tokenOK t1" "tokenOK t2" "tokenOK t3" "tokenOK t4" "tokenOK t5" "tokenOK t6"
    using assms(2) by simp_all
  have s: "Sscanf_f t3 = Inr (floatOf t3)" "Sscanf_f t4 = Inr (floatOf t4)"
    "Sscanf_f t5 = Inr (floatOf t5)" "Sscanf_f t6 = Inr (floatOf t6)"
    using assms(5) by (simp_all add: scans_floatOf)
  have m: "makeHeight nr nc = Inr (replicate (nat nr) (replicate (nat nc) 0))"
    using assms(6,7) by (simp add: makeHeight_def)
  show ?thesis
    unfolding ReadEsriGridFromFile_def assms(1) gridHeader_parts
    by (simp add: readIntFromHeader_headerLine readFloat32FromHeader_headerLine
        headerNames_ok t s m assms(3,4))
qed







subsection \<open>The reader as a sequence of \<open>SetHeight\<close> calls\<close>

text \<open>
  On a file with a well-formed header the call is the allocation followed by a sequence
  of in-range \<open>SetHeight\<close> calls, so what holds after any such sequence holds after
  parsing: the extrema are ordered and, with the comparison that line 162 means, every
  value written that is not the \<open>noDataValue\<close> lies between them.
\<close>

lemma SetHeights_append:
  "SetHeights test (xs @ ys) ceg =
     (case SetHeights test xs ceg of Inl e \<Rightarrow> Inl e | Inr ceg' \<Rightarrow> SetHeights test ys ceg')"
  by (induction xs arbitrary: ceg) (auto split: sum.splits)

lemma setRow_as_calls:
  "list_all scans toks \<Longrightarrow> setRow test toks row col ceg = SetHeights test (rowCalls toks row col) ceg"
  by (induction toks arbitrary: col ceg) (auto simp: scans_floatOf split: sum.splits)

lemma rowCalls_in_range:
  assumes "0 \<le> row" "row < nrows ceg" "0 \<le> col" "col + int (length toks) \<le> ncols ceg"
  shows "\<forall>(r, c, h) \<in> set (rowCalls toks row col). in_range ceg r c"
  using assms
proof (induction toks arbitrary: col)
  case Nil
  then show ?case by simp
next
  case (Cons t ts)
  have "\<forall>(r, c, h) \<in> set (rowCalls ts row (col + 1)). in_range ceg r c"
    using Cons.prems by (intro Cons.IH) simp_all
  then show ?case
    using Cons.prems by (simp add: in_range_def)
qed

lemma fileCalls_in_range:
  assumes "0 \<le> row" "row + int (length ls) \<le> nrows ceg"
  shows "\<forall>(r, c, h) \<in> set (fileCalls (ncols ceg) ls row). in_range ceg r c"
  using assms
proof (induction ls arbitrary: row)
  case Nil
  then show ?case by simp
next
  case (Cons l ls)
  have a: "\<forall>(r, c, h) \<in> set (fileCalls (ncols ceg) ls (row + 1)). in_range ceg r c"
    using Cons.prems by (intro Cons.IH) simp_all
  have b: "int (length (lineTokens l)) = ncols ceg \<Longrightarrow>
           \<forall>(r, c, h) \<in> set (rowCalls (lineTokens l) row 0). in_range ceg r c"
    using Cons.prems by (intro rowCalls_in_range) simp_all
  show ?case
    using a b by auto
qed

lemma dataLoop_as_calls:
  assumes "matrix_ok ceg" "0 \<le> row" "nrows ceg = row + int (length ls)"
    "list_all (lineOK (ncols ceg)) ls"
  shows "dataLoop test (concat (map (\<lambda>l. l @ [newline]) ls)) row (row + 6) (nrows ceg + 6) ceg =
           SetHeights test (fileCalls (ncols ceg) ls row) ceg"
  using assms
proof (induction ls arbitrary: row ceg)
  case Nil
  then show ?case by (simp add: dataLoop_EOF)
next
  case (Cons l ls)
  let ?rest = "concat (map (\<lambda>l. l @ [newline]) ls)"
  have nl: "newline \<notin> set l"
    using Cons.prems(4) by (simp add: lineOK_def)
  have le: "(row + 6) + 1 \<le> nrows ceg + 6"
    using Cons.prems(3) by simp
  have six: "row + 6 + 1 = row + 1 + 6"
    by simp
  show ?case
  proof (cases "int (length (lineTokens l)) = ncols ceg")
    case False
    have step: "dataLoop test (l @ newline # ?rest) row (row + 6) (nrows ceg + 6) ceg =
                dataLoop test ?rest (row + 1) ((row + 6) + 1) (nrows ceg + 6) ceg"
      using False by (intro dataLoop_skip [OF nl le]) (simp add: lineTokens_def)
    have "dataLoop test ?rest (row + 1) ((row + 1) + 6) (nrows ceg + 6) ceg =
            SetHeights test (fileCalls (ncols ceg) ls (row + 1)) ceg"
      using Cons.prems by (intro Cons.IH) simp_all
    then show ?thesis
      using step False by (simp add: six)
  next
    case True
    have sc: "list_all scans (lineTokens l)"
      using Cons.prems(4) True by (simp add: lineOK_def)
    have rr: "row < nrows ceg"
      using Cons.prems(3) by simp
    obtain ceg1 where s1: "setRow test (lineTokens l) row 0 ceg = Inr ceg1" "matrix_ok ceg1"
      "nrows ceg1 = nrows ceg" "ncols ceg1 = ncols ceg"
      using setRow_full [OF Cons.prems(1,2) rr True sc] by blast
    have step: "dataLoop test (l @ newline # ?rest) row (row + 6) (nrows ceg + 6) ceg =
                dataLoop test ?rest (row + 1) ((row + 6) + 1) (nrows ceg + 6) ceg1"
      using dataLoop_line [where l = l and numbers = "lineTokens l" and r = ?rest and row = row
          and lineNum = "row + 6" and linesExpected = "nrows ceg + 6" and ceg = ceg] nl le True s1(1)
      by (simp add: lineTokens_def)
    have "dataLoop test ?rest (row + 1) ((row + 1) + 6) (nrows ceg1 + 6) ceg1 =
            SetHeights test (fileCalls (ncols ceg1) ls (row + 1)) ceg1"
      using Cons.prems s1 by (intro Cons.IH) simp_all
    then show ?thesis
      using step True s1 setRow_as_calls [OF sc, of test row 0 ceg]
      by (simp add: six SetHeights_append)
  qed
qed

lemma parse_as_calls:
  assumes "fs filename = Some (gridHeader [(k1, t1), (k2, t2), (k3, t3), (k4, t4), (k5, t5), (k6, t6)] @
             concat (map (\<lambda>l. l @ [newline]) ls))"
    and "list_all tokenOK [t1, t2, t3, t4, t5, t6]"
    and "Sscanf_d t1 = Inr nc" "Sscanf_d t2 = Inr nr" "list_all scans [t3, t4, t5, t6]"
    and "0 \<le> nc" "0 \<le> nr"
    and "int (length ls) = nr" "list_all (lineOK nc) ls"
  shows "ReadEsriGridFromFile test fs filename ceg =
           SetHeights test (fileCalls nc ls 0)
             (ceg\<lparr>ncols := nc, nrows := nr,
                  height := replicate (nat nr) (replicate (nat nc) 0),
                  xllcorner := floatOf t3, yllcorner := floatOf t4, cellsize := floatOf t5,
                  noDataValue := floatOf t6\<rparr>)"
proof -
  let ?g = "ceg\<lparr>ncols := nc, nrows := nr,
                  height := replicate (nat nr) (replicate (nat nc) 0),
                  xllcorner := floatOf t3, yllcorner := floatOf t4, cellsize := floatOf t5,
                  noDataValue := floatOf t6\<rparr>"
  have m: "matrix_ok ?g"
    by (simp add: matrix_ok_def list_all_iff)
  have "dataLoop test (concat (map (\<lambda>l. l @ [newline]) ls)) 0 (0 + 6) (nrows ?g + 6) ?g =
          SetHeights test (fileCalls (ncols ?g) ls 0) ?g"
    using assms(8,9) by (intro dataLoop_as_calls [OF m]) simp_all
  then show ?thesis
    unfolding parse_header [where fs = fs and filename = filename, OF assms(1-7)] by simp
qed

lemma parsed_values_within_extrema:
  assumes "fs filename = Some (gridHeader [(k1, t1), (k2, t2), (k3, t3), (k4, t4), (k5, t5), (k6, t6)] @
             concat (map (\<lambda>l. l @ [newline]) ls))"
    and "list_all tokenOK [t1, t2, t3, t4, t5, t6]"
    and "Sscanf_d t1 = Inr nc" "Sscanf_d t2 = Inr nr" "list_all scans [t3, t4, t5, t6]"
    and "0 \<le> nc" "0 \<le> nr"
    and "int (length ls) = nr" "list_all (lineOK nc) ls"
    and "stats_ok ceg"
  shows "\<exists>ceg'. ReadEsriGridFromFile asMeant fs filename ceg = Inr ceg' \<and> stats_ok ceg' \<and>
           (\<forall>(row, col, h) \<in> set (fileCalls nc ls 0).
              h \<noteq> NoDataValue ceg' \<longrightarrow> MinHeight ceg' \<le> h \<and> h \<le> MaxHeight ceg')"
proof -
  let ?g = "ceg\<lparr>ncols := nc, nrows := nr,
                  height := replicate (nat nr) (replicate (nat nc) 0),
                  xllcorner := floatOf t3, yllcorner := floatOf t4, cellsize := floatOf t5,
                  noDataValue := floatOf t6\<rparr>"
  have m: "matrix_ok ?g"
    by (simp add: matrix_ok_def list_all_iff)
  have s: "stats_ok ?g"
    using assms(10) by (simp add: stats_ok_def)
  have r: "\<forall>(r, c, h) \<in> set (fileCalls (ncols ?g) ls 0). in_range ?g r c"
    using assms(8) by (intro fileCalls_in_range) simp_all
  then have r': "\<forall>(r, c, h) \<in> set (fileCalls nc ls 0). in_range ?g r c"
    by simp
  from SetHeights_invariant [OF m r', of asMeant] s
  obtain ceg' where c: "SetHeights asMeant (fileCalls nc ls 0) ?g = Inr ceg'" "stats_ok ceg'"
    "noDataValue ceg' = noDataValue ?g"
    "\<forall>(row, col, h) \<in> set (fileCalls nc ls 0). \<not> asMeant h (noDataValue ?g) \<longrightarrow> covered ceg' h"
    by blast
  have "\<forall>(row, col, h) \<in> set (fileCalls nc ls 0).
              h \<noteq> NoDataValue ceg' \<longrightarrow> MinHeight ceg' \<le> h \<and> h \<le> MaxHeight ceg'"
    using c(3,4) by (auto simp: covered_def NoDataValue_def MinHeight_def MaxHeight_def asMeant_def)
  then show ?thesis
    using c(1,2) parse_as_calls [where fs = fs and filename = filename and ceg = ceg and test = asMeant,
        OF assms(1-9)]
    by simp
qed

end
